theory Spec2Isabelle
  imports Complex_Main "HOL-Library.Word" "HOL-Library.Monad_Syntax"
begin

section \<open>Platform values shared by the recorder hook and the API client\<close>

type_synonym byte = "8 word"

text \<open>A browser \<^verbatim>\<open>Blob\<close>: immutable bytes and a declared media type.\<close>

record blob =
  blob_bytes :: "byte list"
  blob_type :: string

definition blob_size :: "blob \<Rightarrow> nat" where
  "blob_size b = length (blob_bytes b)"

text \<open>\<^verbatim>\<open>new Blob(parts, { type })\<close>: the parts' bytes, one after the other.\<close>

definition Blob :: "blob list \<Rightarrow> string \<Rightarrow> blob" where
  "Blob parts ty = \<lparr>blob_bytes = concat (map blob_bytes parts), blob_type = ty\<rparr>"

section \<open>The recorder hook (src/hooks/useVoiceRecorder.ts)\<close>

text \<open>
  The hook keeps four React state variables and four refs. The browser objects it drives
  are part of the state as well: every \<^verbatim>\<open>MediaRecorder\<close> constructed so far (its
  \<^verbatim>\<open>state\<close> attribute and the \<^verbatim>\<open>mimeType\<close> variable its handlers close over), the
  capture streams whose tracks have not been stopped, and the intervals set by
  \<^verbatim>\<open>setInterval\<close> and not yet cleared. Streams, recorders and intervals are named by
  the order of their creation. \<^verbatim>\<open>startRecording\<close> is asynchronous: it suspends at
  \<^verbatim>\<open>await getUserMedia\<close> before it has written anything, so the state also counts the
  calls that are suspended there.
\<close>

datatype recording_state = Inactive | Recording | Paused

record media_recorder =
  mr_state :: recording_state
  mr_mimeType :: string

record recorder =
  isRecording :: bool
  isPaused :: bool
  recordingTime :: nat
  audioBlob :: "blob option"
  mediaRecorderRef :: "nat option"
  streamRef :: "nat option"
  chunksRef :: "blob list"
  timerRef :: "nat option"
  pendingStarts :: nat
  mediaRecorders :: "nat \<rightharpoonup> media_recorder"
  recorderCount :: nat
  liveStreams :: "nat list"
  streamCount :: nat
  activeTimers :: "nat list"
  timerCount :: nat

text \<open>What the browser offers: the hook's \<^verbatim>\<open>isSupported\<close> flag and
  \<^verbatim>\<open>MediaRecorder.isTypeSupported\<close>.\<close>

record platform =
  isSupported :: bool
  isTypeSupported :: "string \<Rightarrow> bool"

text \<open>What the browser does with the recorder once a stream is granted: the constructor
  returns and \<^verbatim>\<open>start(1000)\<close> returns, or one of the two throws an error of some
  \<^verbatim>\<open>name\<close>.\<close>

datatype media_recorder_result = RecorderStarted | ConstructorThrew string | StartThrew string

text \<open>The outcome of \<^verbatim>\<open>navigator.mediaDevices.getUserMedia\<close>: a stream, or a rejection
  with the \<^verbatim>\<open>name\<close> of the error.\<close>

datatype getUserMedia_result = Granted media_recorder_result | Refused string

datatype recorder_error =
  Unsupported | PermissionDenied | DeviceNotFound | NotSupported | Rethrown string

definition initial :: recorder where
  "initial =
     \<lparr>isRecording = False, isPaused = False, recordingTime = 0, audioBlob = None,
      mediaRecorderRef = None, streamRef = None, chunksRef = [], timerRef = None,
      pendingStarts = 0, mediaRecorders = Map.empty, recorderCount = 0, liveStreams = [], streamCount = 0,
      activeTimers = [], timerCount = 1\<rparr>"

text \<open>\<^verbatim>\<open>startTimer\<close> sets a new interval and stores its handle; it does not clear an
  interval already stored in \<^verbatim>\<open>timerRef\<close>. The handles of \<^verbatim>\<open>setInterval\<close> are
  positive numbers, so the test of \<^verbatim>\<open>stopTimer\<close> succeeds whenever a handle is
  stored.\<close>

definition startTimer :: "recorder \<Rightarrow> recorder" where
  "startTimer s =
     s\<lparr>timerRef := Some (timerCount s),
       activeTimers := activeTimers s @ [timerCount s],
       timerCount := timerCount s + 1\<rparr>"

definition stopTimer :: "recorder \<Rightarrow> recorder" where
  "stopTimer s =
     (case timerRef s of
        None \<Rightarrow> s
      | Some t \<Rightarrow> s\<lparr>activeTimers := removeAll t (activeTimers s), timerRef := None\<rparr>)"

text \<open>The interval's callback, \<^verbatim>\<open>setRecordingTime(prev => prev + 1)\<close>.\<close>

definition timerCallback :: "recorder \<Rightarrow> recorder" where
  "timerCallback s = s\<lparr>recordingTime := recordingTime s + 1\<rparr>"

text \<open>Lines 64 to 74 of \<^verbatim>\<open>startRecording\<close>: the nested tests on
  \<^verbatim>\<open>MediaRecorder.isTypeSupported\<close>.\<close>

definition negotiateMimeType :: "(string \<Rightarrow> bool) \<Rightarrow> string" where
  "negotiateMimeType supported =
     (let mimeType = ''audio/webm;codecs=opus'' in
      if \<not> supported mimeType then
        (let mimeType = ''audio/webm'' in
         if \<not> supported mimeType then
           (let mimeType = ''audio/mp4'' in
            if \<not> supported mimeType then '''' else mimeType)
         else mimeType)
      else mimeType)"

text \<open>The preference list the negotiation is compared with.\<close>

definition preferredMimeTypes :: "string list" where
  "preferredMimeTypes = [''audio/webm;codecs=opus'', ''audio/webm'', ''audio/mp4'']"

text \<open>The state and the captured \<^verbatim>\<open>mimeType\<close> of a recorder object.\<close>

definition stateOf :: "recorder \<Rightarrow> nat \<Rightarrow> recording_state" where
  "stateOf s rid = (case mediaRecorders s rid of None \<Rightarrow> Inactive | Some mr \<Rightarrow> mr_state mr)"

definition setState :: "nat \<Rightarrow> recording_state \<Rightarrow> recorder \<Rightarrow> recorder" where
  "setState rid st s =
     (case mediaRecorders s rid of
        None \<Rightarrow> s
      | Some mr \<Rightarrow> s\<lparr>mediaRecorders := (mediaRecorders s)(rid \<mapsto> mr\<lparr>mr_state := st\<rparr>)\<rparr>)"

text \<open>
  \<^verbatim>\<open>startRecording\<close>, up to its suspension (lines 45 to 50). The unsupported check
  throws before the \<^verbatim>\<open>try\<close>; otherwise \<^verbatim>\<open>getUserMedia\<close> is requested and the call
  waits. Nothing of the hook's state is read or written here: there is no test of
  \<^verbatim>\<open>isRecording\<close>, \<^verbatim>\<open>streamRef\<close> or \<^verbatim>\<open>mediaRecorderRef\<close>, and no mark that a
  call is under way.
\<close>

definition startRecording :: "platform \<Rightarrow> recorder \<Rightarrow> recorder_error + recorder" where
  "startRecording p s =
     (if \<not> isSupported p then Inl Unsupported
      else Inr (s\<lparr>pendingStarts := pendingStarts s + 1\<rparr>))"

text \<open>The \<^verbatim>\<open>catch\<close> of \<^verbatim>\<open>startRecording\<close>, by the \<^verbatim>\<open>name\<close> of what was thrown.\<close>

definition startRecording_catch :: "string \<Rightarrow> recorder_error" where
  "startRecording_catch name =
     (if name = ''NotAllowedError'' then PermissionDenied
      else if name = ''NotFoundError'' then DeviceNotFound
      else if name = ''NotSupportedError'' then NotSupported
      else Rethrown name)"

text \<open>
  \<^verbatim>\<open>startRecording\<close>, from the point where \<^verbatim>\<open>getUserMedia\<close> settles (lines 50 to
  132); this part runs without suspension. A rejection goes to the \<^verbatim>\<open>catch\<close> and
  leaves the state as it was. With a stream, the hook stores it and empties the chunk
  list (61, 62); constructs the recorder and stores it (76 to 81); starts it, sets the
  flag and the elapsed time, and starts the timer (115 to 118). When the constructor or
  \<^verbatim>\<open>start\<close> throws, the \<^verbatim>\<open>catch\<close> maps the error and what was written before stays
  written: the stream is held, and nothing stops its tracks. The result is the error
  thrown, if any, and the state.
\<close>

definition startRecording_resumed ::
  "platform \<Rightarrow> getUserMedia_result \<Rightarrow> recorder \<Rightarrow> recorder_error option \<times> recorder" where
  "startRecording_resumed p gum s =
     (case gum of
        Refused name \<Rightarrow> (Some (startRecording_catch name), s)
      | Granted built \<Rightarrow>
          (let stream = streamCount s;
               s1 = s\<lparr>liveStreams := liveStreams s @ [stream],
                      streamCount := streamCount s + 1,
                      streamRef := Some stream,
                      chunksRef := []\<rparr>;
               mimeType = negotiateMimeType (isTypeSupported p);
               rid = recorderCount s1;
               s2 = s1\<lparr>mediaRecorders := (mediaRecorders s1)
                        (rid \<mapsto> \<lparr>mr_state = Inactive, mr_mimeType = mimeType\<rparr>),
                      recorderCount := recorderCount s1 + 1,
                      mediaRecorderRef := Some rid\<rparr>
           in case built of
                ConstructorThrew name \<Rightarrow> (Some (startRecording_catch name), s1)
              | StartThrew name \<Rightarrow> (Some (startRecording_catch name), s2)
              | RecorderStarted \<Rightarrow>
                  (None, startTimer ((setState rid Recording s2)
                                       \<lparr>isRecording := True, recordingTime := 0\<rparr>))))"

text \<open>The \<^verbatim>\<open>ondataavailable\<close> handler.\<close>

definition ondataavailable :: "blob \<Rightarrow> recorder \<Rightarrow> recorder" where
  "ondataavailable data s =
     (if blob_size data > 0 then s\<lparr>chunksRef := chunksRef s @ [data]\<rparr> else s)"

text \<open>The \<^verbatim>\<open>onstop\<close> handler of a recorder whose \<^verbatim>\<open>mimeType\<close> variable is given: it
  builds the artifact from the chunk list, stores it, and stops the tracks of the stream
  that \<^verbatim>\<open>streamRef\<close> holds at that moment.\<close>

definition onstop :: "string \<Rightarrow> recorder \<Rightarrow> recorder" where
  "onstop mimeType s =
     (let mimeTypeForBlob = (if mimeType = '''' then ''audio/webm'' else mimeType);
          blob = Blob (chunksRef s) mimeTypeForBlob;
          s1 = s\<lparr>audioBlob := Some blob\<rparr>
      in case streamRef s1 of
           None \<Rightarrow> s1
         | Some stream \<Rightarrow>
             s1\<lparr>liveStreams := removeAll stream (liveStreams s1), streamRef := None\<rparr>)"

text \<open>The \<^verbatim>\<open>onerror\<close> handler.\<close>

definition onerror :: "recorder \<Rightarrow> recorder" where
  "onerror s = stopTimer (s\<lparr>isRecording := False, isPaused := False\<rparr>)"

text \<open>
  \<^verbatim>\<open>stopRecording\<close>, \<^verbatim>\<open>pauseRecording\<close> and \<^verbatim>\<open>resumeRecording\<close> are made by
  \<^verbatim>\<open>useCallback\<close> with the flags as dependencies: the function of a render tests the
  values \<^verbatim>\<open>isRecording\<close> and \<^verbatim>\<open>isPaused\<close> had at that render, not the state's. The
  first arguments are these captured values; the refs and the recorder's own state are
  read when the function runs.
\<close>

definition stopRecording :: "bool \<Rightarrow> recorder \<Rightarrow> recorder" where
  "stopRecording isRecording' s =
     (case mediaRecorderRef s of
        None \<Rightarrow> s
      | Some rid \<Rightarrow>
          if isRecording'
          then stopTimer ((setState rid Inactive s)\<lparr>isRecording := False, isPaused := False\<rparr>)
          else s)"

definition pauseRecording :: "bool \<Rightarrow> bool \<Rightarrow> recorder \<Rightarrow> recorder" where
  "pauseRecording isRecording' isPaused' s =
     (case mediaRecorderRef s of
        None \<Rightarrow> s
      | Some rid \<Rightarrow>
          if isRecording' \<and> \<not> isPaused' then
            (if stateOf s rid = Recording
             then stopTimer ((setState rid Paused s)\<lparr>isPaused := True\<rparr>)
             else s)
          else s)"

definition resumeRecording :: "bool \<Rightarrow> bool \<Rightarrow> recorder \<Rightarrow> recorder" where
  "resumeRecording isRecording' isPaused' s =
     (case mediaRecorderRef s of
        None \<Rightarrow> s
      | Some rid \<Rightarrow>
          if isRecording' \<and> isPaused' then
            (if stateOf s rid = Paused
             then startTimer ((setState rid Recording s)\<lparr>isPaused := False\<rparr>)
             else s)
          else s)"

definition clearRecording :: "recorder \<Rightarrow> recorder" where
  "clearRecording s = s\<lparr>audioBlob := None, recordingTime := 0, chunksRef := []\<rparr>"

text \<open>
  What can happen to the hook: a call of \<^verbatim>\<open>startRecording\<close>, which suspends; the
  settling of \<^verbatim>\<open>getUserMedia\<close> for one suspended call, which runs the rest of that
  call; a call of one of the other four functions, the first three through the function
  of some render, with the flags of that render; an event delivered to a handler of one
  of the recorders the hook constructed; or a tick. A tick is one period of 1000 ms:
  every interval that is set runs its callback once. The browser sets a recorder's state
  to inactive before it delivers \<^verbatim>\<open>stop\<close>, and \<^verbatim>\<open>stop()\<close> on a recorder that is
  inactive already is taken to return without effect. An error thrown by
  \<^verbatim>\<open>startRecording\<close> goes to its caller; the state is what was written until then.
\<close>

datatype event =
  StartRecording
  | GetUserMediaSettled getUserMedia_result
  | StopRecording bool
  | PauseRecording bool bool
  | ResumeRecording bool bool
  | ClearRecording
  | DataAvailable nat blob
  | OnStop nat
  | OnError nat
  | Tick

definition tick :: "recorder \<Rightarrow> recorder" where
  "tick s = fold (\<lambda>_. timerCallback) (activeTimers s) s"

fun step :: "platform \<Rightarrow> event \<Rightarrow> recorder \<Rightarrow> recorder" where
  "step p StartRecording s =
     (case startRecording p s of Inl _ \<Rightarrow> s | Inr s' \<Rightarrow> s')"
| "step p (GetUserMediaSettled gum) s =
     (if pendingStarts s = 0 then s
      else snd (startRecording_resumed p gum (s\<lparr>pendingStarts := pendingStarts s - 1\<rparr>)))"
| "step p (StopRecording isRecording') s = stopRecording isRecording' s"
| "step p (PauseRecording isRecording' isPaused') s = pauseRecording isRecording' isPaused' s"
| "step p (ResumeRecording isRecording' isPaused') s = resumeRecording isRecording' isPaused' s"
| "step p ClearRecording s = clearRecording s"
| "step p (DataAvailable rid data) s =
     (case mediaRecorders s rid of None \<Rightarrow> s | Some mr \<Rightarrow> ondataavailable data s)"
| "step p (OnStop rid) s =
     (case mediaRecorders s rid of
        None \<Rightarrow> s
      | Some mr \<Rightarrow> onstop (mr_mimeType mr) (setState rid Inactive s))"
| "step p (OnError rid) s =
     (case mediaRecorders s rid of None \<Rightarrow> s | Some mr \<Rightarrow> onerror s)"
| "step p Tick s = tick s"

fun run :: "platform \<Rightarrow> event list \<Rightarrow> recorder \<Rightarrow> recorder" where
  "run p [] s = s"
| "run p (e # es) s = run p es (step p e s)"

section \<open>JavaScript values used by the API client (src/lib/api.ts)\<close>

text \<open>
  A JavaScript string is a sequence of UTF-16 code units; \<^verbatim>\<open>length\<close>,
  \<^verbatim>\<open>substring\<close> and \<^verbatim>\<open>trim\<close> count and test code units.
\<close>

type_synonym char16 = "16 word"
type_synonym js_string = "char16 list"

text \<open>An ASCII literal of the source as a JavaScript string.\<close>

definition js :: "string \<Rightarrow> js_string" where
  "js s = map of_char s"

text \<open>The code units \<^verbatim>\<open>String.prototype.trim\<close> strips: ECMAScript's WhiteSpace and
  LineTerminator.\<close>

definition isWhiteSpace :: "char16 \<Rightarrow> bool" where
  "isWhiteSpace c =
     (c \<in> set [0x0009, 0x000A, 0x000B, 0x000C, 0x000D, 0x0020, 0x00A0, 0x1680,
               0x2000, 0x2001, 0x2002, 0x2003, 0x2004, 0x2005, 0x2006, 0x2007,
               0x2008, 0x2009, 0x200A, 0x2028, 0x2029, 0x202F, 0x205F, 0x3000, 0xFEFF])"

definition trim :: "js_string \<Rightarrow> js_string" where
  "trim s = rev (dropWhile isWhiteSpace (rev (dropWhile isWhiteSpace s)))"

text \<open>\<^verbatim>\<open>String.prototype.substring\<close>: both indices are clamped to the string and
  swapped when out of order.\<close>

definition substring :: "int \<Rightarrow> int \<Rightarrow> js_string \<Rightarrow> js_string" where
  "substring indexStart indexEnd s =
     (let len = int (length s);
          finalStart = min (max indexStart 0) len;
          finalEnd = min (max indexEnd 0) len;
          from = min finalStart finalEnd;
          to = max finalStart finalEnd
      in take (nat (to - from)) (drop (nat from) s))"

text \<open>
  A JavaScript number as far as \<^verbatim>\<open>audioBufferToWav\<close> computes with it: a real or NaN.
  A \<^verbatim>\<open>Float32Array\<close> element times \<^verbatim>\<open>0x7FFF\<close> is exact in double precision, so no
  rounding occurs on this path. Infinite samples are clamped like any sample beyond 1
  and are not told apart.
\<close>

datatype number = NaN | Num real

fun Math_min :: "number \<Rightarrow> number \<Rightarrow> number" where
  "Math_min (Num a) (Num b) = Num (min a b)"
| "Math_min _ _ = NaN"

fun Math_max :: "number \<Rightarrow> number \<Rightarrow> number" where
  "Math_max (Num a) (Num b) = Num (max a b)"
| "Math_max _ _ = NaN"

fun times_number :: "number \<Rightarrow> number \<Rightarrow> number" where
  "times_number (Num a) (Num b) = Num (a * b)"
| "times_number _ _ = NaN"

text \<open>ECMAScript's ToInt16: NaN is 0, otherwise truncate towards zero and wrap.\<close>

fun ToInt16 :: "number \<Rightarrow> 16 word" where
  "ToInt16 NaN = 0"
| "ToInt16 (Num r) = word_of_int (if r < 0 then \<lceil>r\<rceil> else \<lfloor>r\<rfloor>)"

section \<open>Web Audio and DataView\<close>

text \<open>An \<^verbatim>\<open>AudioBuffer\<close>: \<^verbatim>\<open>length\<close> in sample frames, \<^verbatim>\<open>sampleRate\<close> in Hz
  (a whole number), and one \<^verbatim>\<open>Float32Array\<close> per channel. The integer setters of a
  \<^verbatim>\<open>DataView\<close> reduce their argument modulo the width of the field.\<close>

record audio_buffer =
  length_frames :: nat
  sampleRate :: nat
  channels :: "number list list"

definition numberOfChannels :: "audio_buffer \<Rightarrow> nat" where
  "numberOfChannels buffer = length (channels buffer)"

text \<open>\<^verbatim>\<open>getChannelData\<close> throws IndexSizeError for a channel the buffer has not.\<close>

definition getChannelData :: "audio_buffer \<Rightarrow> nat \<Rightarrow> number list option" where
  "getChannelData buffer c =
     (if c < numberOfChannels buffer then Some (channels buffer ! c) else None)"

text \<open>Reading a typed array: an index beyond its end gives \<^verbatim>\<open>undefined\<close>, which
  \<^verbatim>\<open>Math.min\<close> converts to NaN.\<close>

definition element :: "number list \<Rightarrow> nat \<Rightarrow> number" where
  "element a i = (if i < length a then a ! i else NaN)"

text \<open>A \<^verbatim>\<open>DataView\<close> store of some bytes at an offset: RangeError (\<open>None\<close>) when they
  do not fit.\<close>

definition store :: "nat \<Rightarrow> byte list \<Rightarrow> byte list \<Rightarrow> byte list option" where
  "store byteOffset bs a =
     (if byteOffset + length bs \<le> length a
      then Some (take byteOffset a @ bs @ drop (byteOffset + length bs) a)
      else None)"

definition bytes16 :: "bool \<Rightarrow> 16 word \<Rightarrow> byte list" where
  "bytes16 littleEndian w =
     (let bs = [ucast w, ucast (drop_bit 8 w)] in if littleEndian then bs else rev bs)"

definition bytes32 :: "bool \<Rightarrow> 32 word \<Rightarrow> byte list" where
  "bytes32 littleEndian w =
     (let bs = [ucast w, ucast (drop_bit 8 w), ucast (drop_bit 16 w), ucast (drop_bit 24 w)]
      in if littleEndian then bs else rev bs)"

definition setUint8 :: "nat \<Rightarrow> nat \<Rightarrow> byte list \<Rightarrow> byte list option" where
  "setUint8 byteOffset v a = store byteOffset [of_nat v] a"

definition setUint16 :: "nat \<Rightarrow> nat \<Rightarrow> bool \<Rightarrow> byte list \<Rightarrow> byte list option" where
  "setUint16 byteOffset v littleEndian a = store byteOffset (bytes16 littleEndian (of_nat v)) a"

definition setUint32 :: "nat \<Rightarrow> nat \<Rightarrow> bool \<Rightarrow> byte list \<Rightarrow> byte list option" where
  "setUint32 byteOffset v littleEndian a = store byteOffset (bytes32 littleEndian (of_nat v)) a"

definition setInt16 :: "nat \<Rightarrow> number \<Rightarrow> bool \<Rightarrow> byte list \<Rightarrow> byte list option" where
  "setInt16 byteOffset x littleEndian a = store byteOffset (bytes16 littleEndian (ToInt16 x)) a"

section \<open>audioBufferToWav\<close>

text \<open>The closure \<^verbatim>\<open>writeString\<close>: one \<^verbatim>\<open>setUint8\<close> per character at
  \<^verbatim>\<open>offset + i\<close>, then the offset moves past the string.\<close>

fun writeChars :: "string \<Rightarrow> nat \<Rightarrow> byte list \<Rightarrow> byte list option" where
  "writeChars [] pos view = Some view"
| "writeChars (c # cs) pos view =
     (case setUint8 pos (of_char c) view of
        None \<Rightarrow> None
      | Some view' \<Rightarrow> writeChars cs (pos + 1) view')"

definition writeString :: "string \<Rightarrow> byte list \<times> nat \<Rightarrow> (byte list \<times> nat) option" where
  "writeString str vo =
     (case writeChars str (snd vo) (fst vo) of
        None \<Rightarrow> None
      | Some view' \<Rightarrow> Some (view', snd vo + length str))"

text \<open>The sample loop, \<^verbatim>\<open>for (let i = 0; i < length; i++)\<close>.\<close>

function writeSamples ::
  "number list \<Rightarrow> nat \<Rightarrow> nat \<Rightarrow> byte list \<times> nat \<Rightarrow> (byte list \<times> nat) option" where
  "writeSamples channelData len i (view, offset) =
     (if i < len then
        (let sample = Math_max (Num (- 1)) (Math_min (Num 1) (element channelData i)) in
         case setInt16 offset (times_number sample (Num 32767)) True view of
           None \<Rightarrow> None
         | Some view' \<Rightarrow> writeSamples channelData len (i + 1) (view', offset + 2))
      else Some (view, offset))"
  by pat_completeness auto
termination
  by (relation "measure (\<lambda>(channelData, len, i, vo). len - i)") auto

definition audioBufferToWav :: "audio_buffer \<Rightarrow> blob option" where
  "audioBufferToWav buffer = do {
     let len = length_frames buffer;
     let rate = sampleRate buffer;
     let view = replicate (44 + len * 2) (0 :: byte);
     let chans = numberOfChannels buffer;
     let offset = 0;
     (view, offset) \<leftarrow> writeString ''RIFF'' (view, offset);
     view \<leftarrow> setUint32 offset (36 + len * 2) True view;
     let offset = offset + 4;
     (view, offset) \<leftarrow> writeString ''WAVE'' (view, offset);
     (view, offset) \<leftarrow> writeString ''fmt '' (view, offset);
     view \<leftarrow> setUint32 offset 16 True view;
     let offset = offset + 4;
     view \<leftarrow> setUint16 offset 1 True view;
     let offset = offset + 2;
     view \<leftarrow> setUint16 offset chans True view;
     let offset = offset + 2;
     view \<leftarrow> setUint32 offset rate True view;
     let offset = offset + 4;
     view \<leftarrow> setUint32 offset (rate * 2) True view;
     let offset = offset + 4;
     view \<leftarrow> setUint16 offset 2 True view;
     let offset = offset + 2;
     view \<leftarrow> setUint16 offset 16 True view;
     let offset = offset + 2;
     (view, offset) \<leftarrow> writeString ''data'' (view, offset);
     view \<leftarrow> setUint32 offset (len * 2) True view;
     let offset = offset + 4;
     channelData \<leftarrow> getChannelData buffer 0;
     (view, offset) \<leftarrow> writeSamples channelData len 0 (view, offset);
     Some \<lparr>blob_bytes = view, blob_type = ''audio/wav''\<rparr>
   }"

text \<open>The two bytes the loop body stores for one sample.\<close>

definition pcm16 :: "number \<Rightarrow> byte list" where
  "pcm16 x =
     bytes16 True (ToInt16 (times_number (Math_max (Num (- 1)) (Math_min (Num 1) x)) (Num 32767)))"

section \<open>The API client (src/lib/api.ts)\<close>

text \<open>
  The remote services and the browser's decoder are the environment. An axios call either
  resolves with the response data or rejects with an \<^verbatim>\<open>AxiosError\<close>, of which the
  client reads \<^verbatim>\<open>response?.status\<close>, \<^verbatim>\<open>code\<close> and
  \<^verbatim>\<open>response?.data?.error?.message\<close>. A field that may be missing is an option.
\<close>

record axios_error =
  err_status :: "nat option"
  err_code :: "string option"
  err_message :: "js_string option"

datatype 'a axios_result = Response 'a | AxiosError axios_error

record usage =
  prompt_tokens :: nat
  completion_tokens :: nat
  total_tokens :: nat

record transcription_data =
  tr_text :: "js_string option"

record choice =
  message_content :: js_string

record chat_data =
  chat_choices :: "choice list option"
  chat_usage :: "usage option"

record services =
  decodeAudioData :: "byte list \<Rightarrow> audio_buffer option"
  postTranscription :: "blob \<Rightarrow> transcription_data axios_result"
  postChatCompletion :: "js_string \<Rightarrow> chat_data axios_result"
  postTextToSpeech :: "string \<Rightarrow> js_string \<Rightarrow> blob option axios_result"

text \<open>The singleton's two keys.\<close>

record api =
  groqApiKey :: js_string
  elevenLabsApiKey :: js_string

text \<open>The requests a call issues, in order: the file sent for transcription with its
  file name, the user turn sent for completion, the voice and text sent for synthesis.\<close>

datatype request =
  TranscriptionRequest blob string
  | ChatCompletionRequest js_string
  | TextToSpeechRequest string js_string

record groq_response =
  gr_text :: js_string
  gr_transcribedText :: "js_string option"
  gr_usage :: "usage option"

text \<open>\<^verbatim>\<open>audioUrl\<close> is an object URL naming \<^verbatim>\<open>audioBlob\<close>; only the blob is kept.\<close>

record elevenlabs_response =
  el_audioBlob :: blob

text \<open>Every \<^verbatim>\<open>new Error(...)\<close> of the client, and its message.\<close>

datatype api_error =
  GroqKeyNotConfigured
  | NoSpeechDetected
  | NoResponseGenerated
  | InvalidGroqKey
  | GroqRateLimit
  | GroqBadRequest js_string
  | GroqTimeout
  | GroqFailure
  | ElevenLabsKeyNotConfigured
  | NoTextProvided
  | EmptyAudioResponse
  | InvalidElevenLabsKey
  | ElevenLabsRateLimit
  | InvalidTextInput
  | ElevenLabsTimeout
  | TextToSpeechFailure

fun message :: "api_error \<Rightarrow> js_string" where
  "message GroqKeyNotConfigured = js ''Groq API key is not configured''"
| "message NoSpeechDetected =
     js ''No speech was detected in the audio. Please try speaking more clearly.''"
| "message NoResponseGenerated = js ''No response generated from AI model''"
| "message InvalidGroqKey =
     js ''Invalid Groq API key. Please check your API key and try again.''"
| "message GroqRateLimit = js ''Rate limit exceeded. Please wait a moment and try again.''"
| "message (GroqBadRequest errorMessage) = js ''Groq API Error: '' @ errorMessage"
| "message GroqTimeout =
     js ''Request timeout. Please check your internet connection and try again.''"
| "message GroqFailure = js ''Failed to process audio with Groq API. Please try again.''"
| "message ElevenLabsKeyNotConfigured = js ''ElevenLabs API key is not configured''"
| "message NoTextProvided = js ''No text provided for speech synthesis''"
| "message EmptyAudioResponse = js ''Empty audio response received''"
| "message InvalidElevenLabsKey =
     js ''Invalid ElevenLabs API key. Please check your API key and try again.''"
| "message ElevenLabsRateLimit =
     js ''ElevenLabs rate limit exceeded. Please wait a moment and try again.''"
| "message InvalidTextInput = js ''Invalid text input for speech synthesis.''"
| "message ElevenLabsTimeout = js ''ElevenLabs request timeout. Please try again.''"
| "message TextToSpeechFailure = js ''Failed to convert text to speech. Please try again.''"

text \<open>What a \<^verbatim>\<open>try\<close> block can throw: a rejected axios call, or an error the block
  itself constructs.\<close>

datatype thrown = ThrownAxios axios_error | ThrownError api_error

text \<open>
  \<^verbatim>\<open>convertBlobToWav\<close>. The promise is created with a \<^verbatim>\<open>resolve\<close> callback only. In
  \<^verbatim>\<open>onload\<close> the decoding and the re-encoding are inside one \<^verbatim>\<open>try\<close>, whose
  \<^verbatim>\<open>catch\<close> resolves with the blob that was passed in. The \<^verbatim>\<open>FileReader\<close> is taken
  to deliver the blob's bytes.
\<close>

definition convertBlobToWav :: "services \<Rightarrow> blob \<Rightarrow> blob" where
  "convertBlobToWav srv audioBlob' =
     (case decodeAudioData srv (blob_bytes audioBlob') of
        None \<Rightarrow> audioBlob'
      | Some audioBuffer \<Rightarrow>
          (case audioBufferToWav audioBuffer of
             None \<Rightarrow> audioBlob'
           | Some wavBlob \<Rightarrow> wavBlob))"

text \<open>The body of the \<^verbatim>\<open>try\<close> of \<^verbatim>\<open>transcribeAndProcess\<close>, with the requests issued
  so far.\<close>

definition transcribeAndProcess_try ::
  "services \<Rightarrow> blob \<Rightarrow> request list \<times> (thrown + groq_response)" where
  "transcribeAndProcess_try srv audioBlob' =
     (let wavBlob = convertBlobToWav srv audioBlob';
          sent1 = [TranscriptionRequest wavBlob ''audio.wav'']
      in case postTranscription srv wavBlob of
           AxiosError e \<Rightarrow> (sent1, Inl (ThrownAxios e))
         | Response transcriptionData \<Rightarrow>
             (case tr_text transcriptionData of
                None \<Rightarrow> (sent1, Inl (ThrownError NoSpeechDetected))
              | Some transcribedText \<Rightarrow>
                  if transcribedText = [] \<or> length (trim transcribedText) = 0
                  then (sent1, Inl (ThrownError NoSpeechDetected))
                  else
                    (let sent2 = sent1 @ [ChatCompletionRequest transcribedText]
                     in case postChatCompletion srv transcribedText of
                          AxiosError e \<Rightarrow> (sent2, Inl (ThrownAxios e))
                        | Response chatData \<Rightarrow>
                            (case chat_choices chatData of
                               None \<Rightarrow> (sent2, Inl (ThrownError NoResponseGenerated))
                             | Some [] \<Rightarrow> (sent2, Inl (ThrownError NoResponseGenerated))
                             | Some (first # _) \<Rightarrow>
                                 (sent2, Inr \<lparr>gr_text = message_content first,
                                              gr_transcribedText = Some transcribedText,
                                              gr_usage = chat_usage chatData\<rparr>)))))"

text \<open>The \<^verbatim>\<open>catch\<close> of \<^verbatim>\<open>transcribeAndProcess\<close>: the four tests apply to an
  \<^verbatim>\<open>AxiosError\<close> only; everything else caught leaves by the last \<^verbatim>\<open>throw\<close>.\<close>

definition transcribeAndProcess_catch :: "thrown \<Rightarrow> api_error" where
  "transcribeAndProcess_catch error =
     (case error of
        ThrownAxios e \<Rightarrow>
          if err_status e = Some 401 then InvalidGroqKey
          else if err_status e = Some 429 then GroqRateLimit
          else if err_status e = Some 400 then
            GroqBadRequest (case err_message e of
                              None \<Rightarrow> js ''Bad request to Groq API''
                            | Some m \<Rightarrow> if m = [] then js ''Bad request to Groq API'' else m)
          else if err_code e = Some ''ECONNABORTED'' then GroqTimeout
          else GroqFailure
      | ThrownError _ \<Rightarrow> GroqFailure)"

definition transcribeAndProcess ::
  "api \<Rightarrow> services \<Rightarrow> blob \<Rightarrow> request list \<times> (api_error + groq_response)" where
  "transcribeAndProcess a srv audioBlob' =
     (if groqApiKey a = [] then ([], Inl GroqKeyNotConfigured)
      else case transcribeAndProcess_try srv audioBlob' of
             (sent, Inl error) \<Rightarrow> (sent, Inl (transcribeAndProcess_catch error))
           | (sent, Inr response) \<Rightarrow> (sent, Inr response))"

definition convertTextToSpeech_try ::
  "services \<Rightarrow> js_string \<Rightarrow> string \<Rightarrow> request list \<times> (thrown + elevenlabs_response)" where
  "convertTextToSpeech_try srv text voiceId =
     (let sent = [TextToSpeechRequest voiceId (substring 0 2500 text)]
      in case postTextToSpeech srv voiceId (substring 0 2500 text) of
           AxiosError e \<Rightarrow> (sent, Inl (ThrownAxios e))
         | Response None \<Rightarrow> (sent, Inl (ThrownError EmptyAudioResponse))
         | Response (Some responseData) \<Rightarrow>
             if blob_size responseData = 0
             then (sent, Inl (ThrownError EmptyAudioResponse))
             else (sent, Inr \<lparr>el_audioBlob = Blob [responseData] ''audio/mpeg''\<rparr>))"

definition convertTextToSpeech_catch :: "thrown \<Rightarrow> api_error" where
  "convertTextToSpeech_catch error =
     (case error of
        ThrownAxios e \<Rightarrow>
          if err_status e = Some 401 then InvalidElevenLabsKey
          else if err_status e = Some 429 then ElevenLabsRateLimit
          else if err_status e = Some 422 then InvalidTextInput
          else if err_code e = Some ''ECONNABORTED'' then ElevenLabsTimeout
          else TextToSpeechFailure
      | ThrownError _ \<Rightarrow> TextToSpeechFailure)"

definition convertTextToSpeech ::
  "api \<Rightarrow> services \<Rightarrow> js_string \<Rightarrow> string
     \<Rightarrow> request list \<times> (api_error + elevenlabs_response)" where
  "convertTextToSpeech a srv text voiceId =
     (if elevenLabsApiKey a = [] then ([], Inl ElevenLabsKeyNotConfigured)
      else if text = [] \<or> length (trim text) = 0 then ([], Inl NoTextProvided)
      else case convertTextToSpeech_try srv text voiceId of
             (sent, Inl error) \<Rightarrow> (sent, Inl (convertTextToSpeech_catch error))
           | (sent, Inr response) \<Rightarrow> (sent, Inr response))"

text \<open>The default of the \<^verbatim>\<open>voiceId\<close> parameter.\<close>

definition defaultVoiceId :: string where
  "defaultVoiceId = ''EXAVITQu4vr4xnSDxMaL''"

section \<open>The page's handler (handleProcessAudio)\<close>

text \<open>What the handler leaves in the page's state, and the requests it caused.\<close>

record page =
  page_error :: "js_string option"
  page_transcribedText :: js_string
  page_responseText :: js_string
  page_audioResponse :: "elevenlabs_response option"

definition handleProcessAudio ::
  "api \<Rightarrow> services \<Rightarrow> blob option \<Rightarrow> page \<Rightarrow> request list \<times> page" where
  "handleProcessAudio a srv audioBlob' pg =
     (case audioBlob' of
        None \<Rightarrow> ([], pg)
      | Some recorded \<Rightarrow>
          (let pg0 = pg\<lparr>page_error := None, page_responseText := [],
                        page_transcribedText := [], page_audioResponse := None\<rparr>
           in case transcribeAndProcess a srv recorded of
                (sent, Inl error) \<Rightarrow> (sent, pg0\<lparr>page_error := Some (message error)\<rparr>)
              | (sent, Inr groqResponse) \<Rightarrow>
                  (let pg1 = pg0\<lparr>page_transcribedText :=
                                   (case gr_transcribedText groqResponse of
                                      None \<Rightarrow> [] | Some t \<Rightarrow> t),
                                 page_responseText := gr_text groqResponse\<rparr>
                   in case convertTextToSpeech a srv (gr_text groqResponse) defaultVoiceId of
                        (sent', Inl error) \<Rightarrow>
                          (sent @ sent', pg1\<lparr>page_error := Some (message error)\<rparr>)
                      | (sent', Inr ttsResponse) \<Rightarrow>
                          (sent @ sent', pg1\<lparr>page_audioResponse := Some ttsResponse\<rparr>))))"

section \<open>Callers' disciplines, invariants and sample inputs\<close>

text \<open>
  Two disciplines a caller can follow. Under the first, \<^verbatim>\<open>startRecording\<close> is called
  only while the hook holds no stream and no earlier call is suspended. Under the second
  it is called only while \<^verbatim>\<open>isRecording\<close> is false and no earlier call is suspended,
  and the other functions are called through the latest render, so that the flags they
  test are the state's.
\<close>

fun calls_serialised :: "platform \<Rightarrow> event list \<Rightarrow> recorder \<Rightarrow> bool" where
  "calls_serialised p [] s = True"
| "calls_serialised p (StartRecording # es) s =
     (streamRef s = None \<and> pendingStarts s = 0
      \<and> calls_serialised p es (step p StartRecording s))"
| "calls_serialised p (e # es) s = calls_serialised p es (step p e s)"

fun latest_render :: "event \<Rightarrow> recorder \<Rightarrow> bool" where
  "latest_render StartRecording s = (\<not> isRecording s \<and> pendingStarts s = 0)"
| "latest_render (StopRecording isRecording') s = (isRecording' = isRecording s)"
| "latest_render (PauseRecording isRecording' isPaused') s =
     (isRecording' = isRecording s \<and> isPaused' = isPaused s)"
| "latest_render (ResumeRecording isRecording' isPaused') s =
     (isRecording' = isRecording s \<and> isPaused' = isPaused s)"
| "latest_render _ s = True"

fun called_as_rendered :: "platform \<Rightarrow> event list \<Rightarrow> recorder \<Rightarrow> bool" where
  "called_as_rendered p [] s = True"
| "called_as_rendered p (e # es) s =
     (latest_render e s \<and> called_as_rendered p es (step p e s))"

text \<open>The live streams are exactly the stream the hook holds, and a call is suspended
  only while it holds none.\<close>

definition stream_inv :: "recorder \<Rightarrow> bool" where
  "stream_inv s =
     (liveStreams s = (case streamRef s of None \<Rightarrow> [] | Some x \<Rightarrow> [x])
      \<and> (pendingStarts s = 0 \<or> pendingStarts s = 1 \<and> streamRef s = None))"

text \<open>The set intervals are exactly the one the hook holds; it holds one exactly while
  \<^verbatim>\<open>isRecording\<close> is true and \<^verbatim>\<open>isPaused\<close> is false; and a call is suspended only while
  \<^verbatim>\<open>isRecording\<close> is false.\<close>

definition timer_inv :: "recorder \<Rightarrow> bool" where
  "timer_inv s =
     (activeTimers s = (case timerRef s of None \<Rightarrow> [] | Some t \<Rightarrow> [t])
      \<and> (timerRef s \<noteq> None) = (isRecording s \<and> \<not> isPaused s)
      \<and> (if isPaused s then isRecording s else True)
      \<and> (pendingStarts s = 0 \<or> pendingStarts s = 1 \<and> \<not> isRecording s))"

text \<open>The chunks delivered, in order, to handlers of recorders that exist.\<close>

fun arrived :: "recorder \<Rightarrow> event list \<Rightarrow> blob list" where
  "arrived s [] = []"
| "arrived s (DataAvailable rid data # es) =
     (case mediaRecorders s rid of None \<Rightarrow> arrived s es | Some mr \<Rightarrow> data # arrived s es)"
| "arrived s (e # es) = arrived s es"

text \<open>The events of one session: anything but a clear and the granting of a stream to
  another call, which both assign a fresh chunk list.\<close>

fun within_session :: "event \<Rightarrow> bool" where
  "within_session (GetUserMediaSettled (Granted _)) = False"
| "within_session ClearRecording = False"
| "within_session _ = True"

text \<open>A browser that records WebM only, and three chunks, the second one empty.\<close>

definition demo_platform :: platform where
  "demo_platform = \<lparr>isSupported = True, isTypeSupported = (\<lambda>m. m = ''audio/webm'')\<rparr>"

definition chunk_a :: blob where
  "chunk_a = \<lparr>blob_bytes = [1, 2], blob_type = ''audio/webm''\<rparr>"

definition chunk_empty :: blob where
  "chunk_empty = \<lparr>blob_bytes = [], blob_type = ''audio/webm''\<rparr>"

definition chunk_b :: blob where
  "chunk_b = \<lparr>blob_bytes = [3], blob_type = ''audio/webm''\<rparr>"

text \<open>A configured client, a recorded artifact, an empty one, two decoded buffers, a
  page with nothing shown, and services that answer every request: the transcription with
  a given transcript, the completion with given candidates. Their decoder rejects zero
  bytes, as \<^verbatim>\<open>decodeAudioData\<close> does.\<close>

definition demo_api :: api where
  "demo_api = \<lparr>groqApiKey = js ''gsk_demo'', elevenLabsApiKey = js ''xi_demo''\<rparr>"

definition recorded :: blob where
  "recorded = \<lparr>blob_bytes = [26, 69, 223, 163], blob_type = ''audio/webm''\<rparr>"

definition empty_artifact :: blob where
  "empty_artifact = \<lparr>blob_bytes = [], blob_type = ''audio/webm''\<rparr>"

definition mono_buffer :: audio_buffer where
  "mono_buffer = \<lparr>length_frames = 3, sampleRate = 16000,
      channels = [[Num 0, Num 1, Num (- 1)]]\<rparr>"

definition stereo_buffer :: audio_buffer where
  "stereo_buffer = \<lparr>length_frames = 2, sampleRate = 48000,
      channels = [[Num 0, Num 1], [Num (- 1), Num 0]]\<rparr>"

definition spoken :: "js_string \<Rightarrow> choice list option \<Rightarrow> services" where
  "spoken transcript candidates =
     \<lparr>decodeAudioData = (\<lambda>bs. if bs = [] then None else Some mono_buffer),
      postTranscription = (\<lambda>file. Response \<lparr>tr_text = Some transcript\<rparr>),
      postChatCompletion =
        (\<lambda>turn. Response \<lparr>chat_choices = candidates, chat_usage = None\<rparr>),
      postTextToSpeech =
        (\<lambda>voice t. Response (Some \<lparr>blob_bytes = [73, 68, 51], blob_type = ''audio/mpeg''\<rparr>))\<rparr>"

definition blank_page :: page where
  "blank_page = \<lparr>page_error = None, page_transcribedText = [], page_responseText = [],
      page_audioResponse = None\<rparr>"

section \<open>Lemmas on the recorder\<close>

lemma fold_timerCallback:
  "fold (\<lambda>_. timerCallback) ts s = s\<lparr>recordingTime := recordingTime s + length ts\<rparr>"
  by (induction ts arbitrary: s) (auto simp: timerCallback_def)

lemma stream_inv_step:
  "stream_inv s \<Longrightarrow> (e = StartRecording \<longrightarrow> streamRef s = None \<and> pendingStarts s = 0)
     \<Longrightarrow> stream_inv (step p e s)"
  by (cases e)
     (auto simp: stream_inv_def startRecording_def startRecording_resumed_def startTimer_def
        stopTimer_def Let_def stopRecording_def pauseRecording_def resumeRecording_def
        clearRecording_def ondataavailable_def onstop_def onerror_def tick_def setState_def
        fold_timerCallback
        split: option.splits getUserMedia_result.splits media_recorder_result.splits if_splits)

lemma timer_inv_step:
  "timer_inv s \<Longrightarrow> latest_render e s \<Longrightarrow> timer_inv (step p e s)"
  by (cases e)
     (auto simp: timer_inv_def startRecording_def startRecording_resumed_def startTimer_def
        stopTimer_def Let_def stopRecording_def pauseRecording_def resumeRecording_def
        clearRecording_def ondataavailable_def onstop_def onerror_def tick_def setState_def
        fold_timerCallback
        split: option.splits getUserMedia_result.splits media_recorder_result.splits if_splits)

lemma stream_inv_run:
  "stream_inv s \<Longrightarrow> calls_serialised p es s \<Longrightarrow> stream_inv (run p es s)"
proof (induction es arbitrary: s)
  case Nil
  then show ?case by simp
next
  case (Cons e es)
  have gate: "e = StartRecording \<longrightarrow> streamRef s = None \<and> pendingStarts s = 0"
    using Cons.prems(2) by (cases e) simp_all
  have rest: "calls_serialised p es (step p e s)"
    using Cons.prems(2) by (cases e) simp_all
  have "stream_inv (step p e s)"
    using Cons.prems(1) gate by (rule stream_inv_step)
  then show ?case
    using Cons.IH rest by simp
qed

lemma timer_inv_run:
  "timer_inv s \<Longrightarrow> called_as_rendered p es s \<Longrightarrow> timer_inv (run p es s)"
  by (induction es arbitrary: s) (auto simp: timer_inv_step)

lemma step_within_session:
  assumes "within_session e"
  shows "dom (mediaRecorders (step p e s)) = dom (mediaRecorders s)
     \<and> chunksRef (step p e s) = chunksRef s @ filter (\<lambda>b. 0 < blob_size b) (arrived s [e])"
proof (cases e)
  case (GetUserMediaSettled gum)
  then show ?thesis
    using assms
    by (cases gum)
       (auto simp: startRecording_resumed_def startRecording_catch_def Let_def)
next
  case ClearRecording
  then show ?thesis
    using assms by simp
qed (auto simp: startRecording_def stopTimer_def startTimer_def Let_def
        stopRecording_def pauseRecording_def resumeRecording_def
        ondataavailable_def onstop_def onerror_def tick_def setState_def fold_timerCallback
        split: option.splits if_splits)

lemma arrived_cong:
  "dom (mediaRecorders s) = dom (mediaRecorders s') \<Longrightarrow> arrived s es = arrived s' es"
proof (induction es)
  case Nil
  then show ?case by simp
next
  case (Cons e es)
  have eq: "(mediaRecorders s r = None) = (mediaRecorders s' r = None)" for r
    using Cons.prems by (metis domIff)
  have ih: "arrived s es = arrived s' es"
    using Cons by simp
  show ?case
  proof (cases e)
    case (DataAvailable rid data)
    then show ?thesis using eq [of rid] ih by (auto split: option.splits)
  qed (simp_all add: ih)
qed

lemma run_within_session:
  "list_all within_session es \<Longrightarrow>
     dom (mediaRecorders (run p es s)) = dom (mediaRecorders s)
     \<and> chunksRef (run p es s) = chunksRef s @ filter (\<lambda>b. 0 < blob_size b) (arrived s es)"
proof (induction es arbitrary: s)
  case Nil
  then show ?case by simp
next
  case (Cons e es)
  have e: "within_session e" and es: "list_all within_session es"
    using Cons.prems by simp_all
  note st = step_within_session [OF e, of p s]
  note ih = Cons.IH [OF es, of "step p e s"]
  have ar: "arrived (step p e s) es = arrived s es"
    using st by (intro arrived_cong) simp
  have split: "arrived s (e # es) = arrived s [e] @ arrived s es"
    by (cases e) (auto split: option.splits)
  show ?case using st ih ar split by simp
qed

text \<open>Two calls made before either is granted: both begin while the hook holds no
  stream and \<^verbatim>\<open>isRecording\<close> is false, and they end with two live streams and two
  intervals, of which \<^verbatim>\<open>streamRef\<close> and \<^verbatim>\<open>timerRef\<close> hold the second.\<close>

lemma two_calls_before_grant:
  "streamRef (step demo_platform StartRecording initial) = None
   \<and> \<not> isRecording (step demo_platform StartRecording initial)
   \<and> liveStreams (run demo_platform
         [StartRecording, StartRecording, GetUserMediaSettled (Granted RecorderStarted),
          GetUserMediaSettled (Granted RecorderStarted)] initial) = [0, 1]
   \<and> activeTimers (run demo_platform
         [StartRecording, StartRecording, GetUserMediaSettled (Granted RecorderStarted),
          GetUserMediaSettled (Granted RecorderStarted)] initial) = [1, 2]"
  by (simp add: initial_def startRecording_def startRecording_resumed_def startTimer_def
        Let_def setState_def demo_platform_def)

lemmas recorder_defs =
  initial_def startRecording_def startRecording_resumed_def startRecording_catch_def
  startTimer_def stopTimer_def Let_def stopRecording_def
  pauseRecording_def resumeRecording_def clearRecording_def stateOf_def setState_def
  ondataavailable_def onstop_def onerror_def tick_def timerCallback_def demo_platform_def
  negotiateMimeType_def Blob_def blob_size_def

section \<open>Lemmas on the WAV encoder\<close>

lemma store_append:
  "length pre = off \<Longrightarrow> length bs \<le> length rest \<Longrightarrow>
     store off bs (pre @ rest) = Some (pre @ bs @ drop (length bs) rest)"
  by (simp add: store_def)

lemma length_bytes16 [simp]: "length (bytes16 le w) = 2"
  by (simp add: bytes16_def Let_def)

lemma length_bytes32 [simp]: "length (bytes32 le w) = 4"
  by (simp add: bytes32_def Let_def)

lemma setUint16_append:
  "length pre = off \<Longrightarrow> 2 \<le> length rest \<Longrightarrow>
     setUint16 off v le (pre @ rest) = Some (pre @ bytes16 le (of_nat v) @ drop 2 rest)"
  by (simp add: setUint16_def store_append)

lemma setUint32_append:
  "length pre = off \<Longrightarrow> 4 \<le> length rest \<Longrightarrow>
     setUint32 off v le (pre @ rest) = Some (pre @ bytes32 le (of_nat v) @ drop 4 rest)"
  by (simp add: setUint32_def store_append)

lemma setInt16_append:
  "length pre = off \<Longrightarrow> 2 \<le> length rest \<Longrightarrow>
     setInt16 off x le (pre @ rest) = Some (pre @ bytes16 le (ToInt16 x) @ drop 2 rest)"
  by (simp add: setInt16_def store_append)

lemma writeChars_append:
  "length pre = pos \<Longrightarrow> length cs \<le> length rest \<Longrightarrow>
     writeChars cs pos (pre @ rest) = Some (pre @ map of_char cs @ drop (length cs) rest)"
proof (induction cs arbitrary: pre pos rest)
  case Nil
  then show ?case by simp
next
  case (Cons c cs)
  from Cons.prems obtain r rest' where rest: "rest = r # rest'"
    by (cases rest) auto
  have st: "setUint8 pos (of_char c) (pre @ rest) = Some ((pre @ [of_char c]) @ rest')"
    using Cons.prems rest by (simp add: setUint8_def store_def of_nat_of_char)
  have "writeChars cs (pos + 1) ((pre @ [of_char c]) @ rest')
          = Some ((pre @ [of_char c]) @ map of_char cs @ drop (length cs) rest')"
    using Cons.prems rest by (intro Cons.IH) auto
  then show ?case
    using st rest by simp
qed

lemma writeString_append:
  "length pre = off \<Longrightarrow> length str \<le> length rest \<Longrightarrow>
     writeString str (pre @ rest, off)
       = Some (pre @ map of_char str @ drop (length str) rest, off + length str)"
  by (simp add: writeString_def writeChars_append)

declare writeSamples.simps [simp del]

lemma writeSamples_append:
  "length pre = off \<Longrightarrow> length rest = 2 * (len - i) \<Longrightarrow>
     writeSamples cd len i (pre @ rest, off)
       = Some (pre @ concat (map (\<lambda>j. pcm16 (element cd j)) [i..<len]), off + 2 * (len - i))"
proof (induction "len - i" arbitrary: i pre rest off)
  case 0
  then show ?case by (subst writeSamples.simps) simp
next
  case (Suc n)
  then have lt: "i < len" and n: "n = len - (i + 1)"
    by simp_all
  have two: "2 \<le> length rest"
    using Suc.prems lt by simp
  have st: "setInt16 off (times_number (Math_max (Num (- 1)) (Math_min (Num 1) (element cd i)))
              (Num 32767)) True (pre @ rest)
            = Some ((pre @ pcm16 (element cd i)) @ drop 2 rest)"
    using Suc.prems(1) two by (simp add: setInt16_append pcm16_def)
  have ih: "writeSamples cd len (i + 1) ((pre @ pcm16 (element cd i)) @ drop 2 rest, off + 2)
          = Some ((pre @ pcm16 (element cd i)) @ concat (map (\<lambda>j. pcm16 (element cd j)) [i + 1..<len]),
                  (off + 2) + 2 * (len - (i + 1)))"
    using Suc.prems lt by (intro Suc.hyps(1) [OF n]) (auto simp: pcm16_def)
  have up: "[i..<len] = i # [i + 1..<len]"
    using lt by (simp add: upt_conv_Cons)
  show ?case
    using lt st ih up by (subst writeSamples.simps) (simp add: Let_def)
qed

lemma audioBufferToWav_bytes:
  assumes "0 < numberOfChannels buffer"
  shows "audioBufferToWav buffer =
    Some \<lparr>blob_bytes =
            map of_char ''RIFF'' @ bytes32 True (of_nat (36 + length_frames buffer * 2))
            @ map of_char ''WAVE'' @ map of_char ''fmt '' @ bytes32 True 16
            @ bytes16 True 1 @ bytes16 True (of_nat (numberOfChannels buffer))
            @ bytes32 True (of_nat (sampleRate buffer))
            @ bytes32 True (of_nat (sampleRate buffer * 2))
            @ bytes16 True 2 @ bytes16 True 16
            @ map of_char ''data'' @ bytes32 True (of_nat (length_frames buffer * 2))
            @ concat (map (\<lambda>j. pcm16 (element (channels buffer ! 0) j)) [0..<length_frames buffer]),
          blob_type = ''audio/wav''\<rparr>"
proof -
  define L where "L = length_frames buffer"
  define R where "R = sampleRate buffer"
  define C where "C = numberOfChannels buffer"
  define p1 :: "byte list" where "p1 = map of_char ''RIFF''"
  define p2 where "p2 = p1 @ bytes32 True (of_nat (36 + L * 2))"
  define p3 :: "byte list" where "p3 = p2 @ map of_char ''WAVE''"
  define p4 :: "byte list" where "p4 = p3 @ map of_char ''fmt ''"
  define p5 where "p5 = p4 @ bytes32 True (of_nat 16)"
  define p6 where "p6 = p5 @ bytes16 True (of_nat 1)"
  define p7 where "p7 = p6 @ bytes16 True (of_nat C)"
  define p8 where "p8 = p7 @ bytes32 True (of_nat R)"
  define p9 where "p9 = p8 @ bytes32 True (of_nat (R * 2))"
  define p10 where "p10 = p9 @ bytes16 True (of_nat 2)"
  define p11 where "p11 = p10 @ bytes16 True (of_nat 16)"
  define p12 :: "byte list" where "p12 = p11 @ map of_char ''data''"
  define p13 where "p13 = p12 @ bytes32 True (of_nat (L * 2))"
  define z :: "nat \<Rightarrow> byte list" where "z = (\<lambda>n. replicate (n + L * 2) 0)"
  have len: "length p1 = 4" "length p2 = 8" "length p3 = 12" "length p4 = 16" "length p5 = 20"
    "length p6 = 22" "length p7 = 24" "length p8 = 28" "length p9 = 32" "length p10 = 34"
    "length p11 = 36" "length p12 = 40" "length p13 = 44"
    by (simp_all add: p1_def p2_def p3_def p4_def p5_def p6_def p7_def p8_def p9_def p10_def
          p11_def p12_def p13_def)
  have z: "length (z n) = n + L * 2" for n
    by (simp add: z_def)
  have s1: "writeString ''RIFF'' (replicate (44 + L * 2) 0, 0) = Some (p1 @ z 40, 4)"
    using writeString_append [of "[]" 0 "''RIFF''" "z 44"]
    by (simp add: p1_def z_def)
  have s2: "setUint32 4 (36 + L * 2) True (p1 @ z 40) = Some (p2 @ z 36)"
    using setUint32_append [of p1 4 "z 40" "36 + L * 2" True] len
    by (simp add: p2_def z_def)
  have s3: "writeString ''WAVE'' (p2 @ z 36, 8) = Some (p3 @ z 32, 12)"
    using writeString_append [of p2 8 "''WAVE''" "z 36"] len
    by (simp add: p3_def z_def)
  have s4: "writeString ''fmt '' (p3 @ z 32, 12) = Some (p4 @ z 28, 16)"
    using writeString_append [of p3 12 "''fmt ''" "z 32"] len
    by (simp add: p4_def z_def)
  have s5: "setUint32 16 16 True (p4 @ z 28) = Some (p5 @ z 24)"
    using setUint32_append [of p4 16 "z 28" 16 True] len
    by (simp add: p5_def z_def)
  have s6: "setUint16 20 1 True (p5 @ z 24) = Some (p6 @ z 22)"
    using setUint16_append [of p5 20 "z 24" 1 True] len
    by (simp add: p6_def z_def)
  have s6': "setUint16 20 (Suc 0) True (p5 @ z 24) = Some (p6 @ z 22)"
    using s6 by simp
  have s7: "setUint16 22 C True (p6 @ z 22) = Some (p7 @ z 20)"
    using setUint16_append [of p6 22 "z 22" C True] len
    by (simp add: p7_def z_def)
  have s8: "setUint32 24 R True (p7 @ z 20) = Some (p8 @ z 16)"
    using setUint32_append [of p7 24 "z 20" R True] len
    by (simp add: p8_def z_def)
  have s9: "setUint32 28 (R * 2) True (p8 @ z 16) = Some (p9 @ z 12)"
    using setUint32_append [of p8 28 "z 16" "R * 2" True] len
    by (simp add: p9_def z_def)
  have s10: "setUint16 32 2 True (p9 @ z 12) = Some (p10 @ z 10)"
    using setUint16_append [of p9 32 "z 12" 2 True] len
    by (simp add: p10_def z_def)
  have s11: "setUint16 34 16 True (p10 @ z 10) = Some (p11 @ z 8)"
    using setUint16_append [of p10 34 "z 10" 16 True] len
    by (simp add: p11_def z_def)
  have s12: "writeString ''data'' (p11 @ z 8, 36) = Some (p12 @ z 4, 40)"
    using writeString_append [of p11 36 "''data''" "z 8"] len
    by (simp add: p12_def z_def)
  have s13: "setUint32 40 (L * 2) True (p12 @ z 4) = Some (p13 @ z 0)"
    using setUint32_append [of p12 40 "z 4" "L * 2" True] len
    by (simp add: p13_def z_def)
  have s14: "getChannelData buffer 0 = Some (channels buffer ! 0)"
    using assms by (simp add: getChannelData_def)
  have s15: "writeSamples (channels buffer ! 0) L 0 (p13 @ z 0, 44)
      = Some (p13 @ concat (map (\<lambda>j. pcm16 (element (channels buffer ! 0) j)) [0..<L]), 44 + 2 * (L - 0))"
    using len by (intro writeSamples_append) (simp_all add: z)
  have "audioBufferToWav buffer =
    Some \<lparr>blob_bytes = p13 @ concat (map (\<lambda>j. pcm16 (element (channels buffer ! 0) j)) [0..<L]),
          blob_type = ''audio/wav''\<rparr>"
    unfolding audioBufferToWav_def Let_def L_def [symmetric] R_def [symmetric] C_def [symmetric]
    by (simp del: writeSamples.simps add: s1 s2 s3 s4 s5 s6' s7 s8 s9 s10 s11 s12 s13 s14 s15)
  then show ?thesis
    by (simp add: p13_def p12_def p11_def p10_def p9_def p8_def p7_def p6_def p5_def p4_def
          p3_def p2_def p1_def L_def R_def C_def)
qed

text \<open>The format chunk and the data chunk's header, for every buffer: PCM, the buffer's
  channel count, its sample rate, twice the sample rate as byte rate, block align 2,
  16 bits per sample, and twice the frame count as data size.\<close>

lemma wav_header_fields:
  assumes "0 < numberOfChannels buffer"
  shows "map_option (\<lambda>wav. take 24 (drop 20 (blob_bytes wav))) (audioBufferToWav buffer)
    = Some (bytes16 True 1 @ bytes16 True (of_nat (numberOfChannels buffer))
            @ bytes32 True (of_nat (sampleRate buffer))
            @ bytes32 True (of_nat (sampleRate buffer * 2))
            @ bytes16 True 2 @ bytes16 True 16
            @ map of_char ''data'' @ bytes32 True (of_nat (length_frames buffer * 2)))"
  using audioBufferToWav_bytes [OF assms] by (simp add: bytes32_def)

section \<open>Lemmas on the API client\<close>

lemmas api_defs =
  transcribeAndProcess_def transcribeAndProcess_try_def transcribeAndProcess_catch_def
  convertTextToSpeech_def convertTextToSpeech_try_def convertTextToSpeech_catch_def
  handleProcessAudio_def Let_def

lemma js_simps [simp]: "js [] = []" "js (c # cs) = of_char c # js cs"
  by (simp_all add: js_def)

lemma substring_0: "0 \<le> n \<Longrightarrow> substring 0 n s = take (nat n) s"
  by (auto simp: substring_def Let_def min_def max_def)

text \<open>Whatever the \<^verbatim>\<open>try\<close> of \<^verbatim>\<open>transcribeAndProcess\<close> throws by itself leaves the
  function as the generic failure.\<close>

lemma transcribeAndProcess_own_error:
  "groqApiKey a \<noteq> [] \<Longrightarrow> transcribeAndProcess_try srv audioBlob' = (sent, Inl (ThrownError e))
     \<Longrightarrow> transcribeAndProcess a srv audioBlob' = (sent, Inl GroqFailure)"
  by (simp add: transcribeAndProcess_def transcribeAndProcess_catch_def)

text \<open>A blank transcript ends the \<^verbatim>\<open>try\<close> after the transcription request, by the
  error constructed at lines 133 to 135.\<close>

lemma blank_transcript_try:
  "postTranscription srv (convertBlobToWav srv audioBlob') = Response d
     \<Longrightarrow> (case tr_text d of None \<Rightarrow> True | Some t \<Rightarrow> trim t = [])
     \<Longrightarrow> transcribeAndProcess_try srv audioBlob'
           = ([TranscriptionRequest (convertBlobToWav srv audioBlob') ''audio.wav''],
              Inl (ThrownError NoSpeechDetected))"
  by (auto simp: transcribeAndProcess_try_def Let_def trim_def split: option.splits)

text \<open>A completion without choices ends the \<^verbatim>\<open>try\<close> after the completion request,
  by the error constructed at lines 167 to 169.\<close>

lemma missing_choices_try:
  "postTranscription srv (convertBlobToWav srv audioBlob') = Response d
     \<Longrightarrow> tr_text d = Some t \<Longrightarrow> trim t \<noteq> []
     \<Longrightarrow> postChatCompletion srv t = Response cd
     \<Longrightarrow> (case chat_choices cd of None \<Rightarrow> True | Some cs \<Rightarrow> cs = [])
     \<Longrightarrow> transcribeAndProcess_try srv audioBlob'
           = ([TranscriptionRequest (convertBlobToWav srv audioBlob') ''audio.wav'',
               ChatCompletionRequest t],
              Inl (ThrownError NoResponseGenerated))"
  by (auto simp: transcribeAndProcess_try_def Let_def trim_def split: option.splits list.splits)

text \<open>When \<^verbatim>\<open>transcribeAndProcess\<close> fails, the handler shows the message and sends
  nothing more.\<close>

lemma handleProcessAudio_stops_on_groq_error:
  "transcribeAndProcess a srv recorded = (sent, Inl e)
     \<Longrightarrow> fst (handleProcessAudio a srv (Some recorded) pg) = sent
         \<and> page_error (snd (handleProcessAudio a srv (Some recorded) pg)) = Some (message e)"
  by (simp add: handleProcessAudio_def Let_def)

section \<open>Blank transcripts\<close>

text \<open>
  C1, evaluated. The transcription answers with three spaces. Only the transcription
  request is issued, so stage 2 is not reached; but the error constructed for this case is
  thrown inside the \<^verbatim>\<open>try\<close> and the \<^verbatim>\<open>catch\<close> replaces it: the caller receives
  the generic failure, whose message is not the no-speech message.
\<close>

theorem whitespace_transcript_surfaces_generic_failure:
  "transcribeAndProcess demo_api (spoken (js ''   '') (Some [\<lparr>message_content = js ''Hi''\<rparr>]))
       recorded
     = ([TranscriptionRequest
           (convertBlobToWav (spoken (js ''   '') (Some [\<lparr>message_content = js ''Hi''\<rparr>]))
              recorded) ''audio.wav''],
        Inl GroqFailure)
   \<and> message GroqFailure \<noteq> message NoSpeechDetected"
  by (simp add: api_defs demo_api_def spoken_def trim_def isWhiteSpace_def)

section \<open>One capture stream at a time\<close>

text \<open>
  C2 as stated fails. After one call that was granted a stream a session is active; a
  second call of startRecording is not rejected, its stream is granted and the recorder
  starts, and both streams are live.
\<close>

theorem second_start_keeps_both_streams:
  "isRecording (run demo_platform
       [StartRecording, GetUserMediaSettled (Granted RecorderStarted)] initial)
   \<and> \<not> isl (startRecording demo_platform (run demo_platform
       [StartRecording, GetUserMediaSettled (Granted RecorderStarted)] initial))
   \<and> liveStreams (run demo_platform
       [StartRecording, GetUserMediaSettled (Granted RecorderStarted),
        StartRecording, GetUserMediaSettled (Granted RecorderStarted)] initial) = [0, 1]"
  by (simp add: recorder_defs)

text \<open>
  C2, amended. startRecording has no guard for an active session. On a supported
  platform the call is accepted in every state; when getUserMedia grants it a stream,
  that stream is added to the live ones and none is stopped, whether the recorder then
  starts or its constructor or start throws; and when the recorder starts the call ends
  without error. When every call of startRecording is made while the hook holds no
  stream and no earlier call is suspended, at most one capture stream is live after any
  sequence of events.
\<close>

theorem at_most_one_stream_when_started_released:
  "(isSupported p \<longrightarrow> \<not> isl (startRecording p s))
   \<and> liveStreams (snd (startRecording_resumed p (Granted built) s))
       = liveStreams s @ [streamCount s]
   \<and> fst (startRecording_resumed p (Granted RecorderStarted) s) = None
   \<and> (calls_serialised p es initial \<longrightarrow> length (liveStreams (run p es initial)) \<le> 1)"
proof (intro conjI impI)
  assume "isSupported p"
  then show "\<not> isl (startRecording p s)"
    by (simp add: startRecording_def)
next
  show "liveStreams (snd (startRecording_resumed p (Granted built) s))
          = liveStreams s @ [streamCount s]"
    by (cases built) (simp_all add: startRecording_resumed_def startTimer_def setState_def Let_def)
next
  show "fst (startRecording_resumed p (Granted RecorderStarted) s) = None"
    by (simp add: startRecording_resumed_def Let_def)
next
  assume gate: "calls_serialised p es initial"
  have "stream_inv initial"
    by (simp add: stream_inv_def initial_def)
  then have "stream_inv (run p es initial)"
    using gate by (rule stream_inv_run)
  then show "length (liveStreams (run p es initial)) \<le> 1"
    by (simp add: stream_inv_def split: option.splits)
qed

text \<open>The amended C2 at work: a session, its stop and stop handler, and a second call
  whose recorder fails to start.\<close>

theorem at_most_one_stream_witness:
  "isSupported demo_platform
   \<and> \<not> isl (startRecording demo_platform initial)
   \<and> calls_serialised demo_platform
        [StartRecording, GetUserMediaSettled (Granted RecorderStarted), StopRecording True,
         OnStop 0, StartRecording,
         GetUserMediaSettled (Granted (StartThrew ''InvalidStateError''))] initial
   \<and> liveStreams (run demo_platform
        [StartRecording, GetUserMediaSettled (Granted RecorderStarted), StopRecording True,
         OnStop 0, StartRecording,
         GetUserMediaSettled (Granted (StartThrew ''InvalidStateError''))] initial) = [1]"
  using at_most_one_stream_when_started_released
    [of demo_platform initial RecorderStarted
        "[StartRecording, GetUserMediaSettled (Granted RecorderStarted), StopRecording True,
          OnStop 0, StartRecording,
          GetUserMediaSettled (Granted (StartThrew ''InvalidStateError''))]"]
  by (simp add: recorder_defs)

section \<open>The WAV header\<close>

text \<open>
  C3, evaluated. For a decoded buffer of two channels the bytes at offset 22 of the
  header, the channel count, are 2 and 0: the header declares two channels. The block
  align at offset 32 is 2 and the sample width at offset 34 is 16 bits, as for one
  channel.
\<close>

theorem stereo_header_declares_two_channels:
  "numberOfChannels stereo_buffer = 2
   \<and> map_option (\<lambda>wav. take 2 (drop 22 (blob_bytes wav))) (audioBufferToWav stereo_buffer)
       = Some [2, 0]
   \<and> map_option (\<lambda>wav. take 2 (drop 32 (blob_bytes wav))) (audioBufferToWav stereo_buffer)
       = Some [2, 0]
   \<and> map_option (\<lambda>wav. take 2 (drop 34 (blob_bytes wav))) (audioBufferToWav stereo_buffer)
       = Some [16, 0]"
proof -
  have two: "numberOfChannels stereo_buffer = 2"
    by (simp add: numberOfChannels_def stereo_buffer_def)
  then have "0 < numberOfChannels stereo_buffer"
    by simp
  from audioBufferToWav_bytes [OF this] two show ?thesis
    by (simp add: bytes16_def bytes32_def)
qed

section \<open>Missing choices\<close>

text \<open>
  C4, evaluated. The completion answers with an empty list of choices, or with none.
  The handler sends the transcription and the completion request and no synthesis
  request, so stage 3 is not reached; but the page shows the generic failure, not the
  message constructed for missing choices.
\<close>

theorem empty_choices_surface_generic_failure:
  "handleProcessAudio demo_api (spoken (js ''Hello'') (Some [])) (Some recorded) blank_page
     = ([TranscriptionRequest (convertBlobToWav (spoken (js ''Hello'') (Some [])) recorded)
           ''audio.wav'',
         ChatCompletionRequest (js ''Hello'')],
        blank_page\<lparr>page_error := Some (message GroqFailure)\<rparr>)
   \<and> snd (transcribeAndProcess demo_api (spoken (js ''Hello'') None) recorded) = Inl GroqFailure
   \<and> message GroqFailure \<noteq> message NoResponseGenerated"
  by (simp add: api_defs demo_api_def spoken_def trim_def isWhiteSpace_def blank_page_def)

section \<open>Format adaptation falls back\<close>

text \<open>
  C5. When decoding the artifact's bytes fails, convertBlobToWav resolves with the
  artifact itself, and a configured client sends that artifact, unchanged, as the file of
  the transcription request.
\<close>

theorem convertBlobToWav_falls_back:
  assumes "decodeAudioData srv (blob_bytes audioBlob') = None"
  shows "convertBlobToWav srv audioBlob' = audioBlob'
    \<and> (groqApiKey a \<noteq> [] \<longrightarrow>
         take 1 (fst (transcribeAndProcess a srv audioBlob'))
           = [TranscriptionRequest audioBlob' ''audio.wav''])"
proof -
  have fallback: "convertBlobToWav srv audioBlob' = audioBlob'"
    using assms by (simp add: convertBlobToWav_def)
  have "take 1 (fst (transcribeAndProcess_try srv audioBlob'))
          = [TranscriptionRequest audioBlob' ''audio.wav'']"
    by (simp add: transcribeAndProcess_try_def fallback Let_def
          split: axios_result.splits option.splits list.splits)
  then show ?thesis
    using fallback by (auto simp: transcribeAndProcess_def split: prod.splits sum.splits)
qed

text \<open>C5 at work on an artifact of zero bytes.\<close>

theorem convertBlobToWav_zero_bytes_witness:
  "blob_size empty_artifact = 0
   \<and> decodeAudioData (spoken (js ''Hello'') None) (blob_bytes empty_artifact) = None
   \<and> convertBlobToWav (spoken (js ''Hello'') None) empty_artifact = empty_artifact
   \<and> groqApiKey demo_api \<noteq> []
   \<and> take 1 (fst (transcribeAndProcess demo_api (spoken (js ''Hello'') None) empty_artifact))
       = [TranscriptionRequest empty_artifact ''audio.wav'']"
proof -
  have d: "decodeAudioData (spoken (js ''Hello'') None) (blob_bytes empty_artifact) = None"
    by (simp add: spoken_def empty_artifact_def)
  have k: "groqApiKey demo_api \<noteq> []"
    by (simp add: demo_api_def)
  show ?thesis
    using convertBlobToWav_falls_back [OF d, of demo_api] d k
    by (simp add: blob_size_def empty_artifact_def)
qed

section \<open>Truncation of the synthesis text\<close>

text \<open>
  C6. convertTextToSpeech sends one synthesis request when the key is set and the text
  is not blank, and none otherwise. The text it sends is the first 2500 code units of the
  reply: of length exactly 2500 when the reply is longer, and the reply itself when it
  is not.
\<close>

theorem convertTextToSpeech_transmits_prefix:
  "fst (convertTextToSpeech a srv text voiceId)
     = (if elevenLabsApiKey a = [] \<or> trim text = [] then []
        else [TextToSpeechRequest voiceId (take 2500 text)])
   \<and> (2500 < length text \<longrightarrow> length (take 2500 text) = 2500)
   \<and> (length text \<le> 2500 \<longrightarrow> take 2500 text = text)"
proof -
  have nil: "trim [] = []"
    by (simp add: trim_def)
  have sent: "fst (convertTextToSpeech_try srv text voiceId)
                = [TextToSpeechRequest voiceId (take 2500 text)]"
    by (simp add: convertTextToSpeech_try_def Let_def substring_0
          split: axios_result.splits option.splits)
  have "fst (convertTextToSpeech a srv text voiceId)
          = (if elevenLabsApiKey a = [] \<or> trim text = [] then []
             else [TextToSpeechRequest voiceId (take 2500 text)])"
    using nil sent by (auto simp: convertTextToSpeech_def split: prod.splits sum.splits)
  then show ?thesis
    by simp
qed

text \<open>C6 at work on a reply of 2501 code units and on a short one.\<close>

theorem convertTextToSpeech_prefix_witness:
  "elevenLabsApiKey demo_api \<noteq> []
   \<and> trim (replicate 2501 0x61) \<noteq> []
   \<and> 2500 < length (replicate 2501 (0x61 :: char16))
   \<and> fst (convertTextToSpeech demo_api (spoken (js ''Hello'') None) (replicate 2501 0x61)
           defaultVoiceId)
       = [TextToSpeechRequest defaultVoiceId (replicate 2500 0x61)]
   \<and> fst (convertTextToSpeech demo_api (spoken (js ''Hello'') None) (js ''Hi'') defaultVoiceId)
       = [TextToSpeechRequest defaultVoiceId (js ''Hi'')]"
proof -
  have k: "elevenLabsApiKey demo_api \<noteq> []"
    by (simp add: demo_api_def)
  have t: "trim (replicate 2501 0x61) \<noteq> []"
    by (simp add: trim_def isWhiteSpace_def)
  have h: "trim (js ''Hi'') \<noteq> []"
    by (simp add: trim_def isWhiteSpace_def)
  show ?thesis
    using convertTextToSpeech_transmits_prefix
            [of demo_api "spoken (js ''Hello'') None" "replicate 2501 0x61" defaultVoiceId]
          convertTextToSpeech_transmits_prefix
            [of demo_api "spoken (js ''Hello'') None" "js ''Hi''" defaultVoiceId]
          k t h
    by simp
qed

section \<open>Elapsed time\<close>

text \<open>
  C7 as stated fails. Two calls of startRecording, both made while isRecording is
  false, are both granted. Two intervals are then set: while the hook is recording and
  not paused a tick adds 2, and after stopRecording, which clears the second interval
  only, a tick still adds 1.
\<close>

theorem ticks_after_two_starts:
  "isRecording (run demo_platform
       [StartRecording, StartRecording, GetUserMediaSettled (Granted RecorderStarted),
        GetUserMediaSettled (Granted RecorderStarted)] initial)
   \<and> \<not> isPaused (run demo_platform
       [StartRecording, StartRecording, GetUserMediaSettled (Granted RecorderStarted),
        GetUserMediaSettled (Granted RecorderStarted)] initial)
   \<and> recordingTime (run demo_platform
       [StartRecording, StartRecording, GetUserMediaSettled (Granted RecorderStarted),
        GetUserMediaSettled (Granted RecorderStarted), Tick] initial) = 2
   \<and> \<not> isRecording (run demo_platform
       [StartRecording, StartRecording, GetUserMediaSettled (Granted RecorderStarted),
        GetUserMediaSettled (Granted RecorderStarted), StopRecording True] initial)
   \<and> recordingTime (run demo_platform
       [StartRecording, StartRecording, GetUserMediaSettled (Granted RecorderStarted),
        GetUserMediaSettled (Granted RecorderStarted), StopRecording True, Tick] initial) = 1"
  by (simp add: recorder_defs)

text \<open>
  C7, amended. Let every call of startRecording be made while isRecording is false and
  no earlier call is suspended, and let stopRecording, pauseRecording and
  resumeRecording be called through the latest render. Then a tick after any sequence of
  events adds exactly 1 to the elapsed time if isRecording is true and isPaused is false,
  and adds nothing if isPaused is true or isRecording is false. The sequence start, 3
  ticks, pause, resume, 2 ticks, stop is such a sequence and ends with an elapsed time
  of 5.
\<close>

theorem tick_adds_one_only_while_recording:
  "(called_as_rendered p es initial \<longrightarrow>
      recordingTime (step p Tick (run p es initial))
        = recordingTime (run p es initial)
          + (if isRecording (run p es initial) \<and> \<not> isPaused (run p es initial) then 1 else 0))
   \<and> (isSupported p \<longrightarrow>
      called_as_rendered p
        [StartRecording, GetUserMediaSettled (Granted RecorderStarted), Tick, Tick, Tick,
         PauseRecording True False, ResumeRecording True True, Tick, Tick,
         StopRecording True] initial
      \<and> recordingTime (run p
        [StartRecording, GetUserMediaSettled (Granted RecorderStarted), Tick, Tick, Tick,
         PauseRecording True False, ResumeRecording True True, Tick, Tick,
         StopRecording True] initial) = 5)"
proof (intro conjI impI)
  assume gate: "called_as_rendered p es initial"
  have "timer_inv initial"
    by (simp add: timer_inv_def initial_def)
  then have inv: "timer_inv (run p es initial)"
    using gate by (rule timer_inv_run)
  show "recordingTime (step p Tick (run p es initial))
          = recordingTime (run p es initial)
            + (if isRecording (run p es initial) \<and> \<not> isPaused (run p es initial) then 1 else 0)"
    using inv by (auto simp: timer_inv_def tick_def fold_timerCallback split: option.splits)
next
  assume "isSupported p"
  then show "called_as_rendered p
        [StartRecording, GetUserMediaSettled (Granted RecorderStarted), Tick, Tick, Tick,
         PauseRecording True False, ResumeRecording True True, Tick, Tick,
         StopRecording True] initial"
    by (simp add: initial_def startRecording_def startRecording_resumed_def startTimer_def
          stopTimer_def Let_def stopRecording_def pauseRecording_def resumeRecording_def
          stateOf_def tick_def setState_def timerCallback_def)
next
  assume "isSupported p"
  then show "recordingTime (run p
        [StartRecording, GetUserMediaSettled (Granted RecorderStarted), Tick, Tick, Tick,
         PauseRecording True False, ResumeRecording True True, Tick, Tick,
         StopRecording True] initial) = 5"
    by (simp add: initial_def startRecording_def startRecording_resumed_def startTimer_def
          stopTimer_def Let_def stopRecording_def pauseRecording_def resumeRecording_def
          stateOf_def tick_def setState_def timerCallback_def)
qed

text \<open>The amended C7 at work: a tick while paused adds nothing; the scenario gives 5.\<close>

theorem tick_adds_one_witness:
  "called_as_rendered demo_platform
      [StartRecording, GetUserMediaSettled (Granted RecorderStarted), Tick,
       PauseRecording True False] initial
   \<and> isPaused (run demo_platform
      [StartRecording, GetUserMediaSettled (Granted RecorderStarted), Tick,
       PauseRecording True False] initial)
   \<and> recordingTime (step demo_platform Tick (run demo_platform
      [StartRecording, GetUserMediaSettled (Granted RecorderStarted), Tick,
       PauseRecording True False] initial)) = 1
   \<and> isSupported demo_platform
   \<and> recordingTime (run demo_platform
      [StartRecording, GetUserMediaSettled (Granted RecorderStarted), Tick, Tick, Tick,
       PauseRecording True False, ResumeRecording True True, Tick, Tick,
       StopRecording True] initial) = 5"
  using tick_adds_one_only_while_recording
    [of demo_platform "[StartRecording, GetUserMediaSettled (Granted RecorderStarted), Tick,
       PauseRecording True False]"]
  by (simp add: recorder_defs)

section \<open>Media-type negotiation\<close>

text \<open>
  C8. Whatever the platform supports, the negotiated type is the first supported entry of
  the list audio/webm;codecs=opus, audio/webm, audio/mp4, and it is the empty type (the
  platform default) exactly when none of the three is supported.
\<close>

theorem negotiateMimeType_first_supported:
  "negotiateMimeType supported =
     (case List.find supported preferredMimeTypes of None \<Rightarrow> '''' | Some m \<Rightarrow> m)
   \<and> (negotiateMimeType supported = '''') =
     (\<not> supported ''audio/webm;codecs=opus'' \<and> \<not> supported ''audio/webm''
      \<and> \<not> supported ''audio/mp4'')"
  by (simp add: negotiateMimeType_def preferredMimeTypes_def Let_def)

section \<open>The chunk buffer and the artifact\<close>

text \<open>
  C9. Take any state reached when a call of startRecording is granted a stream, and any
  sequence of events of that session. The chunk list then holds exactly the chunks of
  non-zero size that arrived, in arrival order, and the stop handler of any recorder
  stores as the artifact the blob of those chunks: its bytes are their bytes, one after
  the other.
\<close>

theorem artifact_is_concat_of_nonempty_chunks:
  assumes "startRecording_resumed p (Granted built) s0 = (thrown, s1)"
    and "list_all within_session es"
    and "mediaRecorders (run p es s1) rid = Some mr"
  shows "chunksRef (run p es s1) = filter (\<lambda>b. 0 < blob_size b) (arrived s1 es)
    \<and> list_all (\<lambda>b. blob_size b \<noteq> 0) (chunksRef (run p es s1))
    \<and> map_option blob_bytes (audioBlob (step p (OnStop rid) (run p es s1)))
        = Some (concat (map blob_bytes (filter (\<lambda>b. 0 < blob_size b) (arrived s1 es))))"
proof -
  have empty: "chunksRef s1 = []"
    using assms(1)
    by (cases built)
       (auto simp: startRecording_resumed_def startTimer_def setState_def Let_def)
  have chunks: "chunksRef (run p es s1) = filter (\<lambda>b. 0 < blob_size b) (arrived s1 es)"
    using run_within_session [OF assms(2), of p s1] empty by simp
  have nonzero: "list_all (\<lambda>b. blob_size b \<noteq> 0) (chunksRef (run p es s1))"
    unfolding chunks by (simp add: list_all_iff)
  have "map_option blob_bytes (audioBlob (step p (OnStop rid) (run p es s1)))
          = Some (concat (map blob_bytes (chunksRef (run p es s1))))"
    using assms(3)
    by (simp add: onstop_def setState_def Blob_def Let_def split: option.splits)
  then show ?thesis
    using chunks nonzero by simp
qed

text \<open>C9 at work: three chunks arrive, the second of size zero; the artifact holds
  the first and the third.\<close>

theorem artifact_is_concat_witness:
  "startRecording_resumed demo_platform (Granted RecorderStarted) initial
     = (None, run demo_platform [GetUserMediaSettled (Granted RecorderStarted)]
                (initial\<lparr>pendingStarts := 1\<rparr>))
   \<and> list_all within_session
       [DataAvailable 0 chunk_a, PauseRecording True False, DataAvailable 0 chunk_empty,
        ResumeRecording True True, StopRecording True, DataAvailable 0 chunk_b]
   \<and> chunksRef (run demo_platform
       [DataAvailable 0 chunk_a, PauseRecording True False, DataAvailable 0 chunk_empty,
        ResumeRecording True True, StopRecording True, DataAvailable 0 chunk_b]
       (run demo_platform [GetUserMediaSettled (Granted RecorderStarted)]
          (initial\<lparr>pendingStarts := 1\<rparr>))) = [chunk_a, chunk_b]
   \<and> map_option blob_bytes (audioBlob (step demo_platform (OnStop 0) (run demo_platform
       [DataAvailable 0 chunk_a, PauseRecording True False, DataAvailable 0 chunk_empty,
        ResumeRecording True True, StopRecording True, DataAvailable 0 chunk_b]
       (run demo_platform [GetUserMediaSettled (Granted RecorderStarted)]
          (initial\<lparr>pendingStarts := 1\<rparr>))))) = Some [1, 2, 3]"
proof -
  have start: "startRecording_resumed demo_platform (Granted RecorderStarted) initial
     = (None, run demo_platform [GetUserMediaSettled (Granted RecorderStarted)]
                (initial\<lparr>pendingStarts := 1\<rparr>))"
    by (simp add: recorder_defs)
  have sess: "list_all within_session
       [DataAvailable 0 chunk_a, PauseRecording True False, DataAvailable 0 chunk_empty,
        ResumeRecording True True, StopRecording True, DataAvailable 0 chunk_b]"
    by simp
  have mr: "mediaRecorders (run demo_platform
       [DataAvailable 0 chunk_a, PauseRecording True False, DataAvailable 0 chunk_empty,
        ResumeRecording True True, StopRecording True, DataAvailable 0 chunk_b]
       (run demo_platform [GetUserMediaSettled (Granted RecorderStarted)]
          (initial\<lparr>pendingStarts := 1\<rparr>))) 0
      = Some \<lparr>mr_state = Inactive, mr_mimeType = ''audio/webm''\<rparr>"
    by (simp add: recorder_defs chunk_a_def chunk_b_def chunk_empty_def)
  show ?thesis
    using artifact_is_concat_of_nonempty_chunks [OF start sess mr] start sess
    by (simp add: recorder_defs chunk_a_def chunk_b_def chunk_empty_def)
qed

section \<open>Size and data of the WAV blob\<close>

text \<open>
  C10. For every decoded buffer (it has at least one channel) with L frames,
  audioBufferToWav returns a blob of exactly 44 + 2 L bytes, whatever the number of
  channels, and the bytes after the header are the 16-bit samples of channel 0 alone, in
  order.
\<close>

theorem audioBufferToWav_size_and_data:
  assumes "0 < numberOfChannels buffer"
  shows "\<exists>wav. audioBufferToWav buffer = Some wav
      \<and> blob_size wav = 44 + 2 * length_frames buffer
      \<and> drop 44 (blob_bytes wav)
          = concat (map (\<lambda>i. pcm16 (element (channels buffer ! 0) i)) [0..<length_frames buffer])
      \<and> (length (channels buffer ! 0) = length_frames buffer \<longrightarrow>
           drop 44 (blob_bytes wav) = concat (map pcm16 (channels buffer ! 0)))"
proof -
  have len: "length (concat (map (\<lambda>i. pcm16 (element cd i)) [0..<n])) = 2 * n" for cd n
    by (induction n) (simp_all add: pcm16_def)
  have whole: "map (\<lambda>i. pcm16 (element cd i)) [0..<length cd] = map pcm16 cd" for cd
    by (rule nth_equalityI) (simp_all add: element_def)
  show ?thesis
    using audioBufferToWav_bytes [OF assms] len whole [of "channels buffer ! 0"]
    by (auto simp: blob_size_def)
qed

text \<open>C10 at work on the two-channel buffer: 48 bytes, and the data of channel 0.\<close>

theorem audioBufferToWav_size_witness:
  "0 < numberOfChannels stereo_buffer
   \<and> map_option blob_size (audioBufferToWav stereo_buffer) = Some 48
   \<and> map_option (\<lambda>wav. drop 44 (blob_bytes wav)) (audioBufferToWav stereo_buffer)
       = Some [0, 0, 255, 127]"
proof -
  have ch: "0 < numberOfChannels stereo_buffer"
    by (simp add: numberOfChannels_def stereo_buffer_def)
  have l: "length (channels stereo_buffer ! 0) = length_frames stereo_buffer"
    by (simp add: stereo_buffer_def)
  have "concat (map pcm16 (channels stereo_buffer ! 0)) = [0, 0, 255, 127]"
    by (simp add: stereo_buffer_def pcm16_def bytes16_def)
  then show ?thesis
    using audioBufferToWav_size_and_data [OF ch] ch l
    by (auto simp: stereo_buffer_def)
qed

end
